theory Spec2Isabelle
  imports Complex_Main "HOL-Library.Sublist"
begin

section \<open>Python values and errors\<close>

text \<open>
  The program (\<^verbatim>\<open>check_reason.py\<close>) works on the values that the JSON decoder
  returns: \<^verbatim>\<open>None\<close>, booleans, integers, floats, strings, lists and dictionaries whose
  keys are strings. A dictionary keeps the order in which its keys were inserted, and
  this order is what \<^verbatim>\<open>json.dump\<close> writes, so a dictionary is an association list.

  A float is a double. The program computes one float only, the quotient of two
  integers, which Python rounds to the nearest double: \<open>Finite q\<close> stands for the
  double nearest to the rational \<open>q\<close>.

  A string is its UTF-8 text: an ASCII character is one \<open>char\<close> below 128, every
  other character is a sequence of \<open>char\<close>s from 128 on.
\<close>

datatype pyfloat = Finite rat | PosInf | NegInf | NaN

datatype pyval =
    PyNone
  | PyBool bool
  | PyInt int
  | PyFloat pyfloat
  | PyStr string
  | PyList "pyval list"
  | PyDict "(string \<times> pyval) list"

datatype py_error =
    JSONDecodeError
  | AttributeError
  | TypeError
  | KeyError string
  | ZeroDivisionError
  | OtherError string

type_synonym pydict = "(string \<times> pyval) list"

subsection \<open>Dictionary and string operations\<close>

text \<open>\<^verbatim>\<open>d[k] = v\<close>: an existing key keeps its place and gets the new value, a new key
  goes to the end.\<close>

fun dict_set :: "'k \<Rightarrow> 'v \<Rightarrow> ('k \<times> 'v) list \<Rightarrow> ('k \<times> 'v) list" where
  "dict_set k v [] = [(k, v)]"
| "dict_set k v (p # d) = (if fst p = k then (k, v) # d else p # dict_set k v d)"

text \<open>\<^verbatim>\<open>d.get(k, default)\<close> on a dictionary.\<close>

definition dict_get :: "('k \<times> 'v) list \<Rightarrow> 'k \<Rightarrow> 'v \<Rightarrow> 'v" where
  "dict_get d k dflt = (case map_of d k of Some v \<Rightarrow> v | None \<Rightarrow> dflt)"

text \<open>\<^verbatim>\<open>x.get(k, default)\<close> on any decoded value: only a dictionary has the method.\<close>

fun py_get :: "pyval \<Rightarrow> string \<Rightarrow> pyval \<Rightarrow> py_error + pyval" where
  "py_get (PyDict d) k dflt = Inr (dict_get d k dflt)"
| "py_get _ k dflt = Inl AttributeError"

text \<open>\<^verbatim>\<open>x[k]\<close> with a string key: a missing key is a KeyError, a value that is not a
  dictionary cannot be indexed by a string.\<close>

fun py_getitem :: "pyval \<Rightarrow> string \<Rightarrow> py_error + pyval" where
  "py_getitem (PyDict d) k = (case map_of d k of Some v \<Rightarrow> Inr v | None \<Rightarrow> Inl (KeyError k))"
| "py_getitem _ k = Inl TypeError"

text \<open>\<^verbatim>\<open>x[k] = v\<close> with a string key.\<close>

fun py_setitem :: "pyval \<Rightarrow> string \<Rightarrow> pyval \<Rightarrow> py_error + pyval" where
  "py_setitem (PyDict d) k v = Inr (PyDict (dict_set k v d))"
| "py_setitem _ k v = Inl TypeError"

text \<open>
  \<^verbatim>\<open>s.lower()\<close>. On ASCII text the letters A to Z become a to z and nothing else
  changes. On text with a character beyond ASCII Python follows the Unicode tables
  (the Kelvin sign U+212A, for one, becomes the letter k); these belong to Python and
  are the parameter \<open>ulower\<close>, which gives the lower-case form of such a text.
\<close>

definition char_lower :: "char \<Rightarrow> char" where
  "char_lower c =
     (case map_of (zip ''ABCDEFGHIJKLMNOPQRSTUVWXYZ'' ''abcdefghijklmnopqrstuvwxyz'') c of
        Some l \<Rightarrow> l
      | None \<Rightarrow> c)"

definition is_ascii :: "string \<Rightarrow> bool" where
  "is_ascii s = list_all (\<lambda>c. \<not> digit7 c) s"

definition str_lower :: "(string \<Rightarrow> string) \<Rightarrow> string \<Rightarrow> string" where
  "str_lower ulower s = (if is_ascii s then map char_lower s else ulower s)"

text \<open>\<^verbatim>\<open>x.lower()\<close> on any decoded value: only a string has the method.\<close>

fun py_lower :: "(string \<Rightarrow> string) \<Rightarrow> pyval \<Rightarrow> py_error + string" where
  "py_lower ulower (PyStr s) = Inr (str_lower ulower s)"
| "py_lower ulower _ = Inl AttributeError"

section \<open>Scoring one grader response\<close>

definition REASONING_SCORE_MAP :: "(string \<times> int) list" where
  "REASONING_SCORE_MAP =
     [(''excellent'', 4), (''good'', 3), (''weak'', 2), (''incorrect'', 1), (''invalid'', 0)]"

text \<open>\<^verbatim>\<open>REASONING_SCORE_MAP.get(quality, 0)\<close>.\<close>

definition reasoning_score :: "string \<Rightarrow> int" where
  "reasoning_score quality = dict_get REASONING_SCORE_MAP quality 0"

text \<open>The dictionary that the \<^verbatim>\<open>except\<close> branch builds from the raw response.\<close>

definition invalid_verdict :: "string \<Rightarrow> pyval" where
  "invalid_verdict response =
     PyDict [(''reasoning_quality'', PyStr ''invalid''),
             (''explanation'', PyStr (''Model returned non-JSON output: '' @ response))]"

text \<open>
  The body of the \<^verbatim>\<open>try\<close> block. The decoder \<^verbatim>\<open>json.loads\<close> belongs to Python's
  library: it is the parameter \<open>loads\<close>, which returns the decoded value or the
  exception it raised. The parameter \<open>ulower\<close> is the one of \<open>str_lower\<close>.
\<close>

definition try_parse ::
  "(string \<Rightarrow> py_error + pyval) \<Rightarrow> (string \<Rightarrow> string) \<Rightarrow> string \<Rightarrow> py_error + (pyval \<times> string)" where
  "try_parse loads ulower response =
     (case loads response of
        Inl e \<Rightarrow> Inl e
      | Inr parsed \<Rightarrow>
          (case py_get parsed ''reasoning_quality'' (PyStr ''invalid'') of
             Inl e \<Rightarrow> Inl e
           | Inr v \<Rightarrow>
               (case py_lower ulower v of
                  Inl e \<Rightarrow> Inl e
                | Inr quality \<Rightarrow> Inr (parsed, quality))))"

text \<open>
  Lines 58 to 72 of \<^verbatim>\<open>evaluate_reasoning_with_model\<close>: the bare \<^verbatim>\<open>except\<close> catches
  every exception of the \<^verbatim>\<open>try\<close> block, then the score is stored under \<^verbatim>\<open>"score"\<close>.
\<close>

definition interpret_response ::
  "(string \<Rightarrow> py_error + pyval) \<Rightarrow> (string \<Rightarrow> string) \<Rightarrow> string \<Rightarrow> py_error + pyval" where
  "interpret_response loads ulower response =
     (let (parsed, quality) =
            (case try_parse loads ulower response of
               Inr pq \<Rightarrow> pq
             | Inl _ \<Rightarrow> (invalid_verdict response, ''invalid''))
      in py_setitem parsed ''score'' (PyInt (reasoning_score quality)))"

text \<open>
  A verdict of the kind that a failed decoding gives: the label \<^verbatim>\<open>"invalid"\<close>, the
  score 0 and an explanation that contains the raw response.
\<close>

definition is_invalid_verdict :: "string \<Rightarrow> pyval \<Rightarrow> bool" where
  "is_invalid_verdict response v =
     (py_getitem v ''reasoning_quality'' = Inr (PyStr ''invalid'') \<and>
      py_getitem v ''score'' = Inr (PyInt 0) \<and>
      (case py_getitem v ''explanation'' of
         Inr (PyStr e) \<Rightarrow> sublist response e
       | _ \<Rightarrow> False))"

section \<open>Evaluating one record\<close>

text \<open>
  An f-string field holding a string is the string itself; for any other value it is
  Python's \<^verbatim>\<open>str\<close> of the value, the parameter \<open>fmt\<close>.
\<close>

definition py_format :: "(pyval \<Rightarrow> string) \<Rightarrow> pyval \<Rightarrow> string" where
  "py_format fmt v = (case v of PyStr s \<Rightarrow> s | _ \<Rightarrow> fmt v)"

text \<open>The text of the f-string, one list element per line, each line ended by a newline.\<close>

definition prompt_text :: "string \<Rightarrow> string \<Rightarrow> string \<Rightarrow> string" where
  "prompt_text question reference_answer model_answer =
     concat (map (\<lambda>l. l @ ''\<newline>'')
       ['''',
        ''You will evaluate the quality of the reasoning in the model'' @ [CHR 0x27] @
          ''s answer to a question.'',
        '''',
        ''--- Question ---'',
        question,
        '''',
        ''--- Correct Answer ---'',
        reference_answer,
        '''',
        ''--- Model'' @ [CHR 0x27] @ ''s Answer (including reasoning) ---'',
        model_answer,
        '''',
        ''Task:'',
        ''Evaluate ONLY the reasoning quality (not the final answer correctness).'',
        ''Focus on:'',
        ''- logical soundness'',
        ''- factual correctness'',
        ''- alignment with the question'',
        ''- avoidance of hallucinations'',
        ''- completeness and relevance'',
        '''',
        ''Output STRICTLY in JSON:'',
        ''{'',
        ''  \"reasoning_quality\": \"excellent/good/weak/incorrect\",'',
        ''  \"explanation\": \"One short paragraph explaining your judgment.\"'',
        ''}''])"

text \<open>Lines 23 to 49: the three fields are read in the order of the text.\<close>

definition eval_question :: "(pyval \<Rightarrow> string) \<Rightarrow> pyval \<Rightarrow> py_error + string" where
  "eval_question fmt item =
     (case py_getitem item ''question'' of
        Inl e \<Rightarrow> Inl e
      | Inr q \<Rightarrow>
          (case py_getitem item ''reference_answer'' of
             Inl e \<Rightarrow> Inl e
           | Inr r \<Rightarrow>
               (case py_getitem item ''model_answer'' of
                  Inl e \<Rightarrow> Inl e
                | Inr m \<Rightarrow>
                    Inr (prompt_text (py_format fmt q) (py_format fmt r) (py_format fmt m)))))"

text \<open>
  The grader model is reached through \<^verbatim>\<open>generate_answer\<close>, which is not part of this
  file: given the prompt it returns the response text or raises, and it may answer the
  same prompt differently each time, so it reads and changes a state of its own. The
  configuration is fixed for a run and is part of the parameter.
\<close>

type_synonym 'st generator = "string \<Rightarrow> 'st \<Rightarrow> (py_error + string) \<times> 'st"

definition evaluate_reasoning_with_model ::
  "(string \<Rightarrow> py_error + pyval) \<Rightarrow> (string \<Rightarrow> string) \<Rightarrow> 'st generator \<Rightarrow> (pyval \<Rightarrow> string) \<Rightarrow> pyval \<Rightarrow> 'st \<Rightarrow>
     (py_error + pyval) \<times> 'st" where
  "evaluate_reasoning_with_model loads ulower generate_answer fmt item st =
     (case eval_question fmt item of
        Inl e \<Rightarrow> (Inl e, st)
      | Inr q \<Rightarrow>
          (case generate_answer q st of
             (Inl e, st') \<Rightarrow> (Inl e, st')
           | (Inr response, st') \<Rightarrow> (interpret_response loads ulower response, st')))"

section \<open>The batch driver\<close>

text \<open>
  The loop of \<^verbatim>\<open>process_json_file\<close> over the records it was given: each record is
  evaluated, gets the verdict under \<^verbatim>\<open>"reasoning_evaluation"\<close>, and its score is appended
  to \<^verbatim>\<open>reasoning_scores\<close>. An exception ends the loop and the run.
\<close>

fun eval_items ::
  "(string \<Rightarrow> py_error + pyval) \<Rightarrow> (string \<Rightarrow> string) \<Rightarrow> 'st generator \<Rightarrow> (pyval \<Rightarrow> string) \<Rightarrow> pyval list \<Rightarrow> 'st \<Rightarrow>
     (py_error + pyval list \<times> pyval list) \<times> 'st" where
  "eval_items loads ulower generate_answer fmt [] st = (Inr ([], []), st)"
| "eval_items loads ulower generate_answer fmt (item # items) st =
     (case evaluate_reasoning_with_model loads ulower generate_answer fmt item st of
        (Inl e, st') \<Rightarrow> (Inl e, st')
      | (Inr reasoning_eval, st') \<Rightarrow>
          (case py_setitem item ''reasoning_evaluation'' reasoning_eval of
             Inl e \<Rightarrow> (Inl e, st')
           | Inr item' \<Rightarrow>
               (case py_getitem reasoning_eval ''score'' of
                  Inl e \<Rightarrow> (Inl e, st')
                | Inr score \<Rightarrow>
                    (case eval_items loads ulower generate_answer fmt items st' of
                       (Inl e, st'') \<Rightarrow> (Inl e, st'')
                     | (Inr (items', reasoning_scores), st'') \<Rightarrow>
                         (Inr (item' # items', score # reasoning_scores), st'')))))"

text \<open>
  \<^verbatim>\<open>len(results)\<close> and \<^verbatim>\<open>results[:10]\<close>, then the iteration: a list gives its first ten
  elements, a string its first ten characters; a dictionary has a length but cannot be
  sliced (a TypeError up to Python 3.11, a KeyError after it; nothing below depends on
  which), and no other value has a length. Of a string only its being empty or not
  has an effect: a character is no dictionary, and its evaluation raises.
\<close>

fun first_ten :: "pyval \<Rightarrow> py_error + pyval list" where
  "first_ten (PyList xs) = Inr (take 10 xs)"
| "first_ten (PyStr s) = Inr (map (\<lambda>c. PyStr [c]) (take 10 s))"
| "first_ten _ = Inl TypeError"

text \<open>
  \<^verbatim>\<open>sum(reasoning_scores)\<close>. The scores that the loop collects are integers
  (\<open>interpret_response\<close> stores a \<open>PyInt\<close>), so the last equation is never used.
\<close>

fun py_sum :: "pyval list \<Rightarrow> py_error + int" where
  "py_sum [] = Inr 0"
| "py_sum (PyInt n # vs) = (case py_sum vs of Inl e \<Rightarrow> Inl e | Inr t \<Rightarrow> Inr (n + t))"
| "py_sum (_ # vs) = Inl TypeError"

text \<open>
  \<^verbatim>\<open>a / b\<close> on integers: the double nearest to the quotient. (The quotients of this
  program are sums of at most ten scores divided by a count of at most ten, far from
  the range where the division overflows.)
\<close>

definition py_truediv :: "int \<Rightarrow> int \<Rightarrow> py_error + pyfloat" where
  "py_truediv a b = (if b = 0 then Inl ZeroDivisionError else Inr (Finite (of_int a / of_int b)))"

definition average_score :: "pyval list \<Rightarrow> py_error + pyfloat" where
  "average_score reasoning_scores =
     (case py_sum reasoning_scores of
        Inl e \<Rightarrow> Inl e
      | Inr score_sum \<Rightarrow> py_truediv score_sum (int (length reasoning_scores)))"

text \<open>
  The records are changed in place, so the list under \<^verbatim>\<open>"results"\<close> holds the
  evaluated records followed by the records that the slice left out.
\<close>

fun write_back :: "pyval \<Rightarrow> pyval list \<Rightarrow> pyval" where
  "write_back (PyList xs) items' = PyList (items' @ drop 10 xs)"
| "write_back results items' = results"

text \<open>
  \<^verbatim>\<open>process_json_file\<close> from the decoded input document to the document it writes.
  Reading and writing the files, the progress bar and the printed lines are left out.
\<close>

definition process_json_file ::
  "(string \<Rightarrow> py_error + pyval) \<Rightarrow> (string \<Rightarrow> string) \<Rightarrow> 'st generator \<Rightarrow> (pyval \<Rightarrow> string) \<Rightarrow> pyval \<Rightarrow> 'st \<Rightarrow>
     (py_error + pyval) \<times> 'st" where
  "process_json_file loads ulower generate_answer fmt data st =
     (case py_getitem data ''results'' of
        Inl e \<Rightarrow> (Inl e, st)
      | Inr results \<Rightarrow>
          (case first_ten results of
             Inl e \<Rightarrow> (Inl e, st)
           | Inr items \<Rightarrow>
               (case eval_items loads ulower generate_answer fmt items st of
                  (Inl e, st') \<Rightarrow> (Inl e, st')
                | (Inr (items', reasoning_scores), st') \<Rightarrow>
                    (case average_score reasoning_scores of
                       Inl e \<Rightarrow> (Inl e, st')
                     | Inr avg_score \<Rightarrow>
                         (case py_setitem data ''results'' (write_back results items') of
                            Inl e \<Rightarrow> (Inl e, st')
                          | Inr data' \<Rightarrow>
                              (py_setitem data' ''reasoning_average_score''
                                 (PyFloat avg_score), st'))))))"

text \<open>A generator that also counts how often it is called.\<close>

definition counting :: "'st generator \<Rightarrow> (nat \<times> 'st) generator" where
  "counting generate_answer q =
     (\<lambda>(n, st). case generate_answer q st of (r, st') \<Rightarrow> (r, (Suc n, st')))"

section \<open>What a run may change\<close>

text \<open>
  \<open>kept ks d d'\<close>: every field of \<open>d\<close> is in \<open>d'\<close> at the same position and under the
  same key, with the same value unless its key is in \<open>ks\<close>; the fields that \<open>d'\<close> has
  after those have keys in \<open>ks\<close>.
\<close>

fun kept :: "string list \<Rightarrow> pydict \<Rightarrow> pydict \<Rightarrow> bool" where
  "kept ks [] d' = list_all (\<lambda>p'. fst p' \<in> set ks) d'"
| "kept ks (p # d) [] = False"
| "kept ks (p # d) (p' # d') =
     (fst p' = fst p \<and> (fst p \<in> set ks \<or> snd p' = snd p) \<and> kept ks d d')"

text \<open>A record after its evaluation: the same record with a \<^verbatim>\<open>"reasoning_evaluation"\<close>.\<close>

definition record_gains :: "pyval \<Rightarrow> pyval \<Rightarrow> bool" where
  "record_gains item item' =
     (case (item, item') of
        (PyDict f, PyDict f') \<Rightarrow>
          kept [''reasoning_evaluation''] f f' \<and> map_of f' ''reasoning_evaluation'' \<noteq> None
      | _ \<Rightarrow> False)"

text \<open>
  The output document against the input document: the top level keeps its fields
  apart from \<^verbatim>\<open>"results"\<close> and \<^verbatim>\<open>"reasoning_average_score"\<close>, which is a float; the
  list of results has the same length, its first ten records have gained their
  evaluation and the records after them are the same.
\<close>

definition batch_frame :: "pyval \<Rightarrow> pyval \<Rightarrow> bool" where
  "batch_frame data out =
     (case (data, out) of
        (PyDict d, PyDict d') \<Rightarrow>
          kept [''results'', ''reasoning_average_score''] d d' \<and>
          (case map_of d' ''reasoning_average_score'' of
             Some (PyFloat a) \<Rightarrow> True
           | _ \<Rightarrow> False) \<and>
          (case (map_of d ''results'', map_of d' ''results'') of
             (Some (PyList rs), Some (PyList rs')) \<Rightarrow>
               length rs' = length rs \<and>
               list_all2 record_gains (take 10 rs) (take 10 rs') \<and>
               drop 10 rs' = drop 10 rs
           | _ \<Rightarrow> False)
      | _ \<Rightarrow> False)"

text \<open>The score that a record carries in its evaluation.\<close>

definition has_score :: "pyval \<Rightarrow> int \<Rightarrow> bool" where
  "has_score item n =
     (case py_getitem item ''reasoning_evaluation'' of
        Inr reasoning_eval \<Rightarrow> py_getitem reasoning_eval ''score'' = Inr (PyInt n)
      | Inl e \<Rightarrow> False)"

section \<open>Sample responses and documents\<close>

text \<open>The label WEA followed by the Kelvin sign U+212A, in UTF-8.\<close>

definition kelvin_weak :: string where
  "kelvin_weak = ''WEA'' @ [CHR 0xE2, CHR 0x84, CHR 0xAA]"

definition r_plain :: string where
  "r_plain = ''The reasoning is fine.''"

definition r_excellent :: string where
  "r_excellent = ''{\"reasoning_quality\": \"Excellent\", \"explanation\": \"Sound.\"}''"

definition r_good :: string where
  "r_good = ''{\"reasoning_quality\": \"good\", \"explanation\": \"Sound.\"}''"

definition r_weak :: string where
  "r_weak = ''{\"reasoning_quality\": \"WEAK\", \"explanation\": \"Sound.\"}''"

definition r_incorrect :: string where
  "r_incorrect = ''{\"reasoning_quality\": \"incorrect\", \"explanation\": \"Sound.\"}''"

definition r_padded :: string where
  "r_padded = ''{\"reasoning_quality\": \" Excellent \", \"explanation\": \"Sound.\"}''"

definition r_unknown :: string where
  "r_unknown = ''{\"reasoning_quality\": \"superb\", \"explanation\": \"Sound.\"}''"

definition r_number :: string where
  "r_number = ''{\"reasoning_quality\": 4, \"explanation\": \"Sound.\"}''"

definition r_nolabel :: string where
  "r_nolabel = ''{\"explanation\": \"Sound.\"}''"

definition r_kelvin :: string where
  "r_kelvin = ''{\"reasoning_quality\": \"'' @ kelvin_weak @ ''\", \"explanation\": \"Sound.\"}''"

definition r_list :: string where
  "r_list = ''[\"excellent\"]''"

definition labelled :: "pyval \<Rightarrow> pyval" where
  "labelled l = PyDict [(''reasoning_quality'', l), (''explanation'', PyStr ''Sound.'')]"

text \<open>What \<^verbatim>\<open>json.loads\<close> returns on the sample responses; every other text stands for
  one that is not JSON.\<close>

definition sample_loads :: "string \<Rightarrow> py_error + pyval" where
  "sample_loads r =
     (if r = r_excellent then Inr (labelled (PyStr ''Excellent''))
      else if r = r_good then Inr (labelled (PyStr ''good''))
      else if r = r_weak then Inr (labelled (PyStr ''WEAK''))
      else if r = r_incorrect then Inr (labelled (PyStr ''incorrect''))
      else if r = r_padded then Inr (labelled (PyStr '' Excellent ''))
      else if r = r_unknown then Inr (labelled (PyStr ''superb''))
      else if r = r_number then Inr (labelled (PyInt 4))
      else if r = r_nolabel then Inr (PyDict [(''explanation'', PyStr ''Sound.'')])
      else if r = r_list then Inr (PyList [PyStr ''excellent''])
      else if r = r_kelvin then Inr (labelled (PyStr kelvin_weak))
      else Inl JSONDecodeError)"

text \<open>
  What \<^verbatim>\<open>lower\<close> returns on the one sample label that has a character beyond ASCII,
  where Python gives \<^verbatim>\<open>"weak"\<close>; the other sample labels are ASCII and do not reach it.
\<close>

definition sample_lower :: "string \<Rightarrow> string" where
  "sample_lower s = (if s = kelvin_weak then ''weak'' else s)"

text \<open>A grader that gives the responses of a script, one for each call.\<close>

fun scripted :: "string list generator" where
  "scripted q [] = (Inl (OtherError ''no response''), [])"
| "scripted q (r # rs) = (Inr r, rs)"

definition sample_record :: "int \<Rightarrow> pyval" where
  "sample_record n =
     PyDict [(''id'', PyInt n), (''question'', PyStr ''Q''), (''reference_answer'', PyStr ''A''),
             (''model_answer'', PyStr ''B'')]"

definition sample_document :: "int list \<Rightarrow> pyval" where
  "sample_document ns =
     PyDict [(''model'', PyStr ''llama70''), (''results'', PyList (map sample_record ns)),
             (''n'', PyInt (int (length ns)))]"

definition evaluated_record :: "int \<Rightarrow> pyval \<Rightarrow> pyval" where
  "evaluated_record n reasoning_eval =
     PyDict [(''id'', PyInt n), (''question'', PyStr ''Q''), (''reference_answer'', PyStr ''A''),
             (''model_answer'', PyStr ''B''), (''reasoning_evaluation'', reasoning_eval)]"

definition scored :: "pyval \<Rightarrow> int \<Rightarrow> pyval" where
  "scored l n =
     PyDict [(''reasoning_quality'', l), (''explanation'', PyStr ''Sound.''), (''score'', PyInt n)]"

section \<open>Properties of the dictionary operations and of the score table\<close>

lemma map_of_dict_set: "map_of (dict_set k v d) = (map_of d)(k \<mapsto> v)"
  by (induction d) (auto simp: fun_eq_iff)

lemma keys_dict_set: "fst ` set (dict_set k v d) = insert k (fst ` set d)"
  by (induction d) auto

lemma distinct_dict_set:
  "distinct (map fst d) \<Longrightarrow> distinct (map fst (dict_set k v d))"
  by (induction d) (auto simp: keys_dict_set)

lemma filter_key_absent: "k \<notin> fst ` set d \<Longrightarrow> filter (\<lambda>p. fst p = k) d = []"
  by (induction d) auto

lemma count_key_dict_set:
  "distinct (map fst d) \<Longrightarrow> length (filter (\<lambda>p. fst p = k) (dict_set k v d)) = 1"
  by (induction d) (auto simp: filter_key_absent)

lemma reasoning_score_range: "0 \<le> reasoning_score q \<and> reasoning_score q \<le> 4"
  by (simp add: reasoning_score_def dict_get_def REASONING_SCORE_MAP_def)

lemma reasoning_score_invalid: "reasoning_score ''invalid'' = 0"
  by (simp add: reasoning_score_def dict_get_def REASONING_SCORE_MAP_def)

lemma reasoning_score_default:
  "q \<notin> fst ` set REASONING_SCORE_MAP \<Longrightarrow> reasoning_score q = 0"
  by (auto simp: reasoning_score_def dict_get_def REASONING_SCORE_MAP_def)

section \<open>Properties of the interpretation of a response\<close>

text \<open>The three ways through the \<^verbatim>\<open>try\<close> block.\<close>

lemma try_parse_raises:
  assumes "\<And>d. loads response \<noteq> Inr (PyDict d)"
  shows "\<exists>e. try_parse loads ulower response = Inl e"
proof (cases "loads response")
  case (Inl e)
  then show ?thesis by (simp add: try_parse_def)
next
  case (Inr v)
  with assms have "\<And>d. v \<noteq> PyDict d" by auto
  then have "py_get v ''reasoning_quality'' (PyStr ''invalid'') = Inl AttributeError"
    by (cases v) auto
  with Inr show ?thesis by (simp add: try_parse_def)
qed

lemma try_parse_label:
  assumes "loads response = Inr (PyDict d)"
    and "dict_get d ''reasoning_quality'' (PyStr ''invalid'') = PyStr l"
  shows "try_parse loads ulower response = Inr (PyDict d, str_lower ulower l)"
  using assms by (simp add: try_parse_def)

lemma try_parse_no_string:
  assumes "loads response = Inr (PyDict d)"
    and "map_of d ''reasoning_quality'' = Some v" and "\<And>l. v \<noteq> PyStr l"
  shows "try_parse loads ulower response = Inl AttributeError"
proof -
  from assms(3) have "py_lower ulower v = Inl AttributeError" by (cases v) auto
  with assms(1,2) show ?thesis by (simp add: try_parse_def dict_get_def)
qed

lemma interpret_response_except:
  assumes "try_parse loads ulower response = Inl e"
  shows "interpret_response loads ulower response =
     Inr (PyDict [(''reasoning_quality'', PyStr ''invalid''),
             (''explanation'', PyStr (''Model returned non-JSON output: '' @ response)),
             (''score'', PyInt 0)])"
  using assms by (simp add: interpret_response_def invalid_verdict_def reasoning_score_invalid)

lemma interpret_response_label:
  assumes "loads response = Inr (PyDict d)"
    and "dict_get d ''reasoning_quality'' (PyStr ''invalid'') = PyStr l"
  shows "interpret_response loads ulower response =
     Inr (PyDict (dict_set ''score'' (PyInt (reasoning_score (str_lower ulower l))) d))"
  using try_parse_label [where loads = loads and ulower = ulower] assms by (simp add: interpret_response_def)

text \<open>Every response ends in one of two ways.\<close>

lemma interpret_response_cases:
  obtains (synthetic) "interpret_response loads ulower response =
     Inr (PyDict [(''reasoning_quality'', PyStr ''invalid''),
             (''explanation'', PyStr (''Model returned non-JSON output: '' @ response)),
             (''score'', PyInt 0)])"
  | (decoded) d q where "loads response = Inr (PyDict d)"
      "interpret_response loads ulower response = Inr (PyDict (dict_set ''score'' (PyInt (reasoning_score q)) d))"
proof (cases "try_parse loads ulower response")
  case (Inl e)
  then show ?thesis using interpret_response_except synthetic by blast
next
  case (Inr pq)
  obtain parsed q where pq: "pq = (parsed, q)" by (cases pq)
  from Inr pq obtain d where "loads response = Inr (PyDict d)" "parsed = PyDict d"
    using try_parse_raises [where loads = loads and ulower = ulower and response = response] 
    by (auto simp: try_parse_def split: sum.splits pyval.splits)
  with Inr pq show ?thesis using decoded [of d q] by (simp add: interpret_response_def)
qed

lemma reasoning_score_member:
  "(q, n) \<in> set REASONING_SCORE_MAP \<Longrightarrow> reasoning_score q = n"
  by (auto simp: reasoning_score_def dict_get_def REASONING_SCORE_MAP_def)

lemma evaluate_reasoning_with_model_response:
  assumes "eval_question fmt item = Inr q" and "generate_answer q st = (Inr response, st')"
  shows "evaluate_reasoning_with_model loads ulower generate_answer fmt item st =
     (interpret_response loads ulower response, st')"
  using assms by (simp add: evaluate_reasoning_with_model_def)

lemma is_invalid_verdict_synthetic:
  "is_invalid_verdict response
     (PyDict [(''reasoning_quality'', PyStr ''invalid''),
        (''explanation'', PyStr (''Model returned non-JSON output: '' @ response)),
        (''score'', PyInt 0)])"
proof -
  have "sublist response (''Model returned non-JSON output: '' @ response)"
    by (rule sublist_append_leftI)
  then show ?thesis by (simp add: is_invalid_verdict_def)
qed

lemma eval_question_sample_record:
  "eval_question fmt (sample_record n) = Inr (prompt_text ''Q'' ''A'' ''B'')"
  by (simp add: eval_question_def sample_record_def py_format_def)

text \<open>
  C1. When the grader's response does not decode to a JSON object (the decoder raises,
  or it returns a value that is not an object), \<^verbatim>\<open>evaluate_reasoning_with_model\<close> does
  not raise: it returns the verdict with the label \<^verbatim>\<open>"invalid"\<close>, the score 0 and the
  explanation \<^verbatim>\<open>"Model returned non-JSON output: "\<close> followed by the raw response.
\<close>

theorem unparseable_response_invalid:
  assumes "eval_question fmt item = Inr q" and "generate_answer q st = (Inr response, st')"
    and "\<forall>d. loads response \<noteq> Inr (PyDict d)"
  shows "\<exists>v. evaluate_reasoning_with_model loads ulower generate_answer fmt item st = (Inr v, st') \<and>
      v = PyDict [(''reasoning_quality'', PyStr ''invalid''),
            (''explanation'', PyStr (''Model returned non-JSON output: '' @ response)),
            (''score'', PyInt 0)] \<and>
      is_invalid_verdict response v"
proof -
  let ?v = "PyDict [(''reasoning_quality'', PyStr ''invalid''),
            (''explanation'', PyStr (''Model returned non-JSON output: '' @ response)),
            (''score'', PyInt 0)]"
  from assms(3) obtain e where "try_parse loads ulower response = Inl e"
    using try_parse_raises [where loads = loads and ulower = ulower and response = response] by blast
  then have "interpret_response loads ulower response = Inr ?v"
    by (rule interpret_response_except)
  with assms(1,2) have "evaluate_reasoning_with_model loads ulower generate_answer fmt item st = (Inr ?v, st')"
    by (simp only: evaluate_reasoning_with_model_response)
  moreover have "is_invalid_verdict response ?v"
    by (rule is_invalid_verdict_synthetic)
  ultimately show ?thesis by blast
qed

theorem unparseable_response_invalid_witness:
  "eval_question (\<lambda>v. []) (sample_record 1) = Inr (prompt_text ''Q'' ''A'' ''B'') \<and>
   scripted (prompt_text ''Q'' ''A'' ''B'') [r_plain] = (Inr r_plain, []) \<and>
   (\<forall>d. sample_loads r_plain \<noteq> Inr (PyDict d)) \<and>
   evaluate_reasoning_with_model sample_loads sample_lower scripted (\<lambda>v. []) (sample_record 1) [r_plain] =
     (Inr (PyDict [(''reasoning_quality'', PyStr ''invalid''),
            (''explanation'', PyStr ''Model returned non-JSON output: The reasoning is fine.''),
            (''score'', PyInt 0)]), [])"
proof -
  have a: "eval_question (\<lambda>v. []) (sample_record 1) = Inr (prompt_text ''Q'' ''A'' ''B'')"
    by (rule eval_question_sample_record)
  have b: "scripted (prompt_text ''Q'' ''A'' ''B'') [r_plain] = (Inr r_plain, [])"
    by simp
  have c: "\<forall>d. sample_loads r_plain \<noteq> Inr (PyDict d)"
    by (simp add: sample_loads_def r_plain_def r_excellent_def r_good_def r_weak_def
        r_incorrect_def r_padded_def r_unknown_def r_number_def r_nolabel_def r_list_def
        r_kelvin_def kelvin_weak_def)
  from unparseable_response_invalid [where loads = sample_loads and ulower = sample_lower and generate_answer = scripted
      and response = r_plain, OF a b c] a b c show ?thesis
    by (simp add: r_plain_def)
qed

text \<open>The definitions behind the sample decoder, for its evaluation.\<close>

lemmas sample_defs = sample_loads_def r_plain_def r_excellent_def r_good_def r_weak_def
        r_incorrect_def r_padded_def r_unknown_def r_number_def r_nolabel_def r_list_def labelled_def
        r_kelvin_def kelvin_weak_def

text \<open>
  C2. The table gives excellent 4, good 3, weak 2, incorrect 1 and invalid 0, and the
  lookup \<^verbatim>\<open>REASONING_SCORE_MAP.get(quality, 0)\<close> gives 0 for every other string, the
  empty string included.
\<close>

theorem score_map_exact:
  "reasoning_score ''excellent'' = 4 \<and> reasoning_score ''good'' = 3 \<and>
   reasoning_score ''weak'' = 2 \<and> reasoning_score ''incorrect'' = 1 \<and>
   reasoning_score ''invalid'' = 0 \<and>
   (\<forall>q. q \<notin> {''excellent'', ''good'', ''weak'', ''incorrect'', ''invalid''} \<longrightarrow>
      reasoning_score q = 0)"
  by (auto simp: reasoning_score_def dict_get_def REASONING_SCORE_MAP_def)

theorem score_map_exact_witness:
  "'''' \<notin> {''excellent'', ''good'', ''weak'', ''incorrect'', ''invalid''} \<and>
   reasoning_score '''' = 0 \<and>
   ''superb'' \<notin> {''excellent'', ''good'', ''weak'', ''incorrect'', ''invalid''} \<and>
   reasoning_score ''superb'' = 0"
proof -
  from score_map_exact have other:
    "\<forall>q. q \<notin> {''excellent'', ''good'', ''weak'', ''incorrect'', ''invalid''} \<longrightarrow>
       reasoning_score q = 0"
    by (elim conjE)
  have a: "'''' \<notin> {''excellent'', ''good'', ''weak'', ''incorrect'', ''invalid''}" by simp
  have b: "''superb'' \<notin> {''excellent'', ''good'', ''weak'', ''incorrect'', ''invalid''}" by simp
  have c: "reasoning_score '''' = 0" by (rule other [rule_format, OF a])
  have d: "reasoning_score ''superb'' = 0" by (rule other [rule_format, OF b])
  from a c b d show ?thesis by (intro conjI)
qed

lemma str_lower_invalid: "str_lower ulower ''invalid'' = ''invalid''"
  by (simp add: str_lower_def is_ascii_def char_lower_def)

text \<open>
  C5, as stated, fails. The response \<^verbatim>\<open>{"explanation": "Sound."}\<close> decodes to an object
  without \<^verbatim>\<open>"reasoning_quality"\<close>. The verdict returned is that object with the score 0:
  it has no label \<^verbatim>\<open>"invalid"\<close>, and its explanation is the grader's, which does not
  contain the raw response.
\<close>

theorem missing_label_counterexample:
  "sample_loads r_nolabel = Inr (PyDict [(''explanation'', PyStr ''Sound.'')]) \<and>
   evaluate_reasoning_with_model sample_loads sample_lower scripted (\<lambda>v. []) (sample_record 1) [r_nolabel] =
     (Inr (PyDict [(''explanation'', PyStr ''Sound.''), (''score'', PyInt 0)]), []) \<and>
   \<not> is_invalid_verdict r_nolabel (PyDict [(''explanation'', PyStr ''Sound.''), (''score'', PyInt 0)])"
proof -
  have l: "sample_loads r_nolabel = Inr (PyDict [(''explanation'', PyStr ''Sound.'')])"
    by (simp add: sample_defs)
  have "interpret_response sample_loads sample_lower r_nolabel =
      Inr (PyDict [(''explanation'', PyStr ''Sound.''), (''score'', PyInt 0)])"
    by (simp add: interpret_response_def try_parse_def l dict_get_def str_lower_invalid
        reasoning_score_invalid)
  then have e: "evaluate_reasoning_with_model sample_loads sample_lower scripted (\<lambda>v. []) (sample_record 1) [r_nolabel] =
     (Inr (PyDict [(''explanation'', PyStr ''Sound.''), (''score'', PyInt 0)]), [])"
    by (simp add: evaluate_reasoning_with_model_def eval_question_sample_record)
  have n: "\<not> is_invalid_verdict r_nolabel (PyDict [(''explanation'', PyStr ''Sound.''), (''score'', PyInt 0)])"
    by (simp add: is_invalid_verdict_def)
  from l e n show ?thesis by (intro conjI)
qed

text \<open>
  C5, amended. When the response decodes to a JSON object without the field
  \<^verbatim>\<open>"reasoning_quality"\<close>, the default of \<^verbatim>\<open>get\<close> makes the quality \<^verbatim>\<open>"invalid"\<close> for the
  scoring only: the verdict is the decoded object with the score 0 stored in it. No
  label is added, and the object's explanation, if it has one, is left as it is.
\<close>

theorem missing_label_scores_zero:
  assumes "eval_question fmt item = Inr q" and "generate_answer q st = (Inr response, st')"
    and "loads response = Inr (PyDict d)" and "map_of d ''reasoning_quality'' = None"
  shows "evaluate_reasoning_with_model loads ulower generate_answer fmt item st =
       (Inr (PyDict (dict_set ''score'' (PyInt 0) d)), st') \<and>
     map_of (dict_set ''score'' (PyInt 0) d) ''reasoning_quality'' = None \<and>
     map_of (dict_set ''score'' (PyInt 0) d) ''explanation'' = map_of d ''explanation''"
proof -
  from assms(4) have "dict_get d ''reasoning_quality'' (PyStr ''invalid'') = PyStr ''invalid''"
    by (simp add: dict_get_def)
  with assms(3) have "interpret_response loads ulower response =
      Inr (PyDict (dict_set ''score'' (PyInt (reasoning_score (str_lower ulower ''invalid''))) d))"
    by (rule interpret_response_label)
  then have "interpret_response loads ulower response = Inr (PyDict (dict_set ''score'' (PyInt 0) d))"
    by (simp only: str_lower_invalid reasoning_score_invalid)
  with assms(1,2) have "evaluate_reasoning_with_model loads ulower generate_answer fmt item st =
       (Inr (PyDict (dict_set ''score'' (PyInt 0) d)), st')"
    by (simp only: evaluate_reasoning_with_model_response)
  moreover from assms(4) have "map_of (dict_set ''score'' (PyInt 0) d) ''reasoning_quality'' = None"
    by (simp add: map_of_dict_set)
  moreover have "map_of (dict_set ''score'' (PyInt 0) d) ''explanation'' = map_of d ''explanation''"
    by (simp add: map_of_dict_set)
  ultimately show ?thesis by (intro conjI)
qed

theorem missing_label_scores_zero_witness:
  "eval_question (\<lambda>v. []) (sample_record 1) = Inr (prompt_text ''Q'' ''A'' ''B'') \<and>
   scripted (prompt_text ''Q'' ''A'' ''B'') [r_nolabel] = (Inr r_nolabel, []) \<and>
   sample_loads r_nolabel = Inr (PyDict [(''explanation'', PyStr ''Sound.'')]) \<and>
   map_of [(''explanation'', PyStr ''Sound.'')] ''reasoning_quality'' = None \<and>
   evaluate_reasoning_with_model sample_loads sample_lower scripted (\<lambda>v. []) (sample_record 1) [r_nolabel] =
     (Inr (PyDict [(''explanation'', PyStr ''Sound.''), (''score'', PyInt 0)]), [])"
proof -
  have a: "eval_question (\<lambda>v. []) (sample_record 1) = Inr (prompt_text ''Q'' ''A'' ''B'')"
    by (rule eval_question_sample_record)
  have b: "scripted (prompt_text ''Q'' ''A'' ''B'') [r_nolabel] = (Inr r_nolabel, [])"
    by simp
  have c: "sample_loads r_nolabel = Inr (PyDict [(''explanation'', PyStr ''Sound.'')])"
    by (simp add: sample_defs)
  have d: "map_of [(''explanation'', PyStr ''Sound.'')] ''reasoning_quality'' = None"
    by simp
  from missing_label_scores_zero [where loads = sample_loads and ulower = sample_lower and generate_answer = scripted
      and response = r_nolabel, OF a b c d]
  have "evaluate_reasoning_with_model sample_loads sample_lower scripted (\<lambda>v. []) (sample_record 1) [r_nolabel] =
     (Inr (PyDict [(''explanation'', PyStr ''Sound.''), (''score'', PyInt 0)]), [])"
    by simp
  with a b c d show ?thesis by (intro conjI)
qed

lemma str_lower_Excellent: "str_lower ulower ''Excellent'' = ''excellent''"
  by (simp add: str_lower_def is_ascii_def char_lower_def)

lemma str_lower_padded: "str_lower ulower '' Excellent '' = '' excellent ''"
  by (simp add: str_lower_def is_ascii_def char_lower_def)

lemma str_lower_superb: "str_lower ulower ''superb'' = ''superb''"
  by (simp add: str_lower_def is_ascii_def char_lower_def)

lemma interpret_response_string_label:
  assumes "loads response = Inr (PyDict d)"
    and "map_of d ''reasoning_quality'' = Some (PyStr l)"
  shows "interpret_response loads ulower response =
     Inr (PyDict (dict_set ''score'' (PyInt (reasoning_score (str_lower ulower l))) d))"
proof -
  from assms(2) have "dict_get d ''reasoning_quality'' (PyStr ''invalid'') = PyStr l"
    by (simp add: dict_get_def)
  with assms(1) show ?thesis by (rule interpret_response_label)
qed

text \<open>
  C6, as stated, fails for a label with surrounding whitespace: the label
  \<^verbatim>\<open>" Excellent "\<close> is made lower case but not trimmed, it is no key of the table, and
  the score is 0.
\<close>

theorem padded_label_counterexample:
  "sample_loads r_padded =
     Inr (PyDict [(''reasoning_quality'', PyStr '' Excellent ''), (''explanation'', PyStr ''Sound.'')]) \<and>
   evaluate_reasoning_with_model sample_loads sample_lower scripted (\<lambda>v. []) (sample_record 1) [r_padded] =
     (Inr (PyDict [(''reasoning_quality'', PyStr '' Excellent ''), (''explanation'', PyStr ''Sound.''),
             (''score'', PyInt 0)]), [])"
proof -
  have l: "sample_loads r_padded =
     Inr (PyDict [(''reasoning_quality'', PyStr '' Excellent ''), (''explanation'', PyStr ''Sound.'')])"
    by (simp add: sample_defs)
  have m: "map_of [(''reasoning_quality'', PyStr '' Excellent ''), (''explanation'', PyStr ''Sound.'')]
      ''reasoning_quality'' = Some (PyStr '' Excellent '')"
    by simp
  have s: "reasoning_score '' excellent '' = 0"
    by (simp add: reasoning_score_def dict_get_def REASONING_SCORE_MAP_def)
  have "interpret_response sample_loads sample_lower r_padded =
     Inr (PyDict [(''reasoning_quality'', PyStr '' Excellent ''), (''explanation'', PyStr ''Sound.''),
             (''score'', PyInt 0)])"
    using interpret_response_string_label [where loads = sample_loads and ulower = sample_lower, OF l m]
    by (simp add: str_lower_padded s)
  then have e: "evaluate_reasoning_with_model sample_loads sample_lower scripted (\<lambda>v. []) (sample_record 1) [r_padded] =
     (Inr (PyDict [(''reasoning_quality'', PyStr '' Excellent ''), (''explanation'', PyStr ''Sound.''),
             (''score'', PyInt 0)]), [])"
    by (simp add: evaluate_reasoning_with_model_def eval_question_sample_record)
  from l e show ?thesis by (intro conjI)
qed

text \<open>
  C6, amended. Matching is case-insensitive: a label whose lower-case form is a key of
  the table gets the score of that key, so \<^verbatim>\<open>"Excellent"\<close> scores 4. The verdict is the
  decoded object with the score stored in it; the label in it stays as the grader
  wrote it.
\<close>

theorem label_case_insensitive:
  assumes "eval_question fmt item = Inr q" and "generate_answer q st = (Inr response, st')"
    and "loads response = Inr (PyDict d)"
    and "map_of d ''reasoning_quality'' = Some (PyStr l)"
    and "(str_lower ulower l, n) \<in> set REASONING_SCORE_MAP"
  shows "evaluate_reasoning_with_model loads ulower generate_answer fmt item st =
       (Inr (PyDict (dict_set ''score'' (PyInt n) d)), st')"
proof -
  from assms(5) have "reasoning_score (str_lower ulower l) = n"
    by (rule reasoning_score_member)
  with interpret_response_string_label [where loads = loads and ulower = ulower, OF assms(3,4)]
  have "interpret_response loads ulower response = Inr (PyDict (dict_set ''score'' (PyInt n) d))"
    by simp
  with assms(1,2) show ?thesis
    by (simp only: evaluate_reasoning_with_model_response)
qed

theorem label_case_insensitive_witness:
  "eval_question (\<lambda>v. []) (sample_record 1) = Inr (prompt_text ''Q'' ''A'' ''B'') \<and>
   scripted (prompt_text ''Q'' ''A'' ''B'') [r_excellent] = (Inr r_excellent, []) \<and>
   sample_loads r_excellent =
     Inr (PyDict [(''reasoning_quality'', PyStr ''Excellent''), (''explanation'', PyStr ''Sound.'')]) \<and>
   map_of [(''reasoning_quality'', PyStr ''Excellent''), (''explanation'', PyStr ''Sound.'')]
      ''reasoning_quality'' = Some (PyStr ''Excellent'') \<and>
   (str_lower sample_lower ''Excellent'', 4) \<in> set REASONING_SCORE_MAP \<and>
   evaluate_reasoning_with_model sample_loads sample_lower scripted (\<lambda>v. []) (sample_record 1) [r_excellent] =
     (Inr (PyDict [(''reasoning_quality'', PyStr ''Excellent''), (''explanation'', PyStr ''Sound.''),
             (''score'', PyInt 4)]), [])"
proof -
  have a: "eval_question (\<lambda>v. []) (sample_record 1) = Inr (prompt_text ''Q'' ''A'' ''B'')"
    by (rule eval_question_sample_record)
  have b: "scripted (prompt_text ''Q'' ''A'' ''B'') [r_excellent] = (Inr r_excellent, [])"
    by simp
  have c: "sample_loads r_excellent =
     Inr (PyDict [(''reasoning_quality'', PyStr ''Excellent''), (''explanation'', PyStr ''Sound.'')])"
    by (simp add: sample_defs)
  have d: "map_of [(''reasoning_quality'', PyStr ''Excellent''), (''explanation'', PyStr ''Sound.'')]
      ''reasoning_quality'' = Some (PyStr ''Excellent'')"
    by simp
  have e: "(str_lower sample_lower ''Excellent'', 4) \<in> set REASONING_SCORE_MAP"
    by (simp add: str_lower_Excellent REASONING_SCORE_MAP_def)
  from label_case_insensitive [where loads = sample_loads and ulower = sample_lower and generate_answer = scripted
      and response = r_excellent, OF a b c d e]
  have "evaluate_reasoning_with_model sample_loads sample_lower scripted (\<lambda>v. []) (sample_record 1) [r_excellent] =
     (Inr (PyDict [(''reasoning_quality'', PyStr ''Excellent''), (''explanation'', PyStr ''Sound.''),
             (''score'', PyInt 4)]), [])"
    by simp
  with a b c d e show ?thesis by (intro conjI)
qed

text \<open>
  C7. When the response decodes to a JSON object whose label is a string that, in
  the lower case that Python gives it, is no key of the table, the verdict is the decoded object with the score
  0 stored in it: the except branch is not taken, and the grader's explanation and
  label are in the verdict as the grader wrote them.
\<close>

theorem unknown_label_scores_zero:
  assumes "eval_question fmt item = Inr q" and "generate_answer q st = (Inr response, st')"
    and "loads response = Inr (PyDict d)"
    and "map_of d ''reasoning_quality'' = Some (PyStr l)"
    and "str_lower ulower l \<notin> fst ` set REASONING_SCORE_MAP"
  shows "evaluate_reasoning_with_model loads ulower generate_answer fmt item st =
       (Inr (PyDict (dict_set ''score'' (PyInt 0) d)), st') \<and>
     map_of (dict_set ''score'' (PyInt 0) d) ''explanation'' = map_of d ''explanation'' \<and>
     map_of (dict_set ''score'' (PyInt 0) d) ''reasoning_quality'' = Some (PyStr l)"
proof -
  from assms(5) have "reasoning_score (str_lower ulower l) = 0"
    by (rule reasoning_score_default)
  with interpret_response_string_label [where loads = loads and ulower = ulower, OF assms(3,4)]
  have "interpret_response loads ulower response = Inr (PyDict (dict_set ''score'' (PyInt 0) d))"
    by simp
  with assms(1,2) have "evaluate_reasoning_with_model loads ulower generate_answer fmt item st =
       (Inr (PyDict (dict_set ''score'' (PyInt 0) d)), st')"
    by (simp only: evaluate_reasoning_with_model_response)
  moreover have "map_of (dict_set ''score'' (PyInt 0) d) ''explanation'' = map_of d ''explanation''"
    by (simp add: map_of_dict_set)
  moreover from assms(4) have "map_of (dict_set ''score'' (PyInt 0) d) ''reasoning_quality'' = Some (PyStr l)"
    by (simp add: map_of_dict_set)
  ultimately show ?thesis by (intro conjI)
qed

theorem unknown_label_scores_zero_witness:
  "eval_question (\<lambda>v. []) (sample_record 1) = Inr (prompt_text ''Q'' ''A'' ''B'') \<and>
   scripted (prompt_text ''Q'' ''A'' ''B'') [r_unknown] = (Inr r_unknown, []) \<and>
   sample_loads r_unknown =
     Inr (PyDict [(''reasoning_quality'', PyStr ''superb''), (''explanation'', PyStr ''Sound.'')]) \<and>
   map_of [(''reasoning_quality'', PyStr ''superb''), (''explanation'', PyStr ''Sound.'')]
      ''reasoning_quality'' = Some (PyStr ''superb'') \<and>
   str_lower sample_lower ''superb'' \<notin> fst ` set REASONING_SCORE_MAP \<and>
   evaluate_reasoning_with_model sample_loads sample_lower scripted (\<lambda>v. []) (sample_record 1) [r_unknown] =
     (Inr (PyDict [(''reasoning_quality'', PyStr ''superb''), (''explanation'', PyStr ''Sound.''),
             (''score'', PyInt 0)]), [])"
proof -
  have a: "eval_question (\<lambda>v. []) (sample_record 1) = Inr (prompt_text ''Q'' ''A'' ''B'')"
    by (rule eval_question_sample_record)
  have b: "scripted (prompt_text ''Q'' ''A'' ''B'') [r_unknown] = (Inr r_unknown, [])"
    by simp
  have c: "sample_loads r_unknown =
     Inr (PyDict [(''reasoning_quality'', PyStr ''superb''), (''explanation'', PyStr ''Sound.'')])"
    by (simp add: sample_defs)
  have d: "map_of [(''reasoning_quality'', PyStr ''superb''), (''explanation'', PyStr ''Sound.'')]
      ''reasoning_quality'' = Some (PyStr ''superb'')"
    by simp
  have e: "str_lower sample_lower ''superb'' \<notin> fst ` set REASONING_SCORE_MAP"
    by (simp add: str_lower_superb REASONING_SCORE_MAP_def)
  from unknown_label_scores_zero [where loads = sample_loads and ulower = sample_lower and generate_answer = scripted
      and response = r_unknown, OF a b c d e]
  have "evaluate_reasoning_with_model sample_loads sample_lower scripted (\<lambda>v. []) (sample_record 1) [r_unknown] =
     (Inr (PyDict [(''reasoning_quality'', PyStr ''superb''), (''explanation'', PyStr ''Sound.''),
             (''score'', PyInt 0)]), [])"
    by simp
  with a b c d e show ?thesis by (intro conjI)
qed

text \<open>
  C9. For every response of the grader, \<^verbatim>\<open>evaluate_reasoning_with_model\<close> returns a
  dictionary in which \<^verbatim>\<open>"score"\<close> is present, is an integer from 0 to 4 and, the keys of a
  decoded object being distinct, occurs once.
\<close>

theorem score_always_present:
  assumes "eval_question fmt item = Inr q" and "generate_answer q st = (Inr response, st')"
    and "\<forall>d. loads response = Inr (PyDict d) \<longrightarrow> distinct (map fst d)"
  shows "\<exists>d n. evaluate_reasoning_with_model loads ulower generate_answer fmt item st =
        (Inr (PyDict d), st') \<and>
      map_of d ''score'' = Some (PyInt n) \<and> 0 \<le> n \<and> n \<le> 4 \<and>
      length (filter (\<lambda>p. fst p = ''score'') d) = 1"
proof -
  have "\<exists>d n. interpret_response loads ulower response = Inr (PyDict d) \<and>
      map_of d ''score'' = Some (PyInt n) \<and> 0 \<le> n \<and> n \<le> 4 \<and>
      length (filter (\<lambda>p. fst p = ''score'') d) = 1"
  proof (cases loads ulower response rule: interpret_response_cases)
    case synthetic
    then show ?thesis by simp
  next
    case (decoded d q)
    with assms(3) have "distinct (map fst d)" by simp
    with decoded(2) show ?thesis
      using reasoning_score_range [of q]
      by (simp add: map_of_dict_set count_key_dict_set)
  qed
  then show ?thesis
    by (simp add: evaluate_reasoning_with_model_response [where generate_answer = generate_answer, OF assms(1,2)])
qed

theorem score_always_present_witness:
  "eval_question (\<lambda>v. []) (sample_record 1) = Inr (prompt_text ''Q'' ''A'' ''B'') \<and>
   scripted (prompt_text ''Q'' ''A'' ''B'') [r_good] = (Inr r_good, []) \<and>
   sample_loads r_good =
     Inr (PyDict [(''reasoning_quality'', PyStr ''good''), (''explanation'', PyStr ''Sound.'')]) \<and>
   distinct (map fst [(''reasoning_quality'', PyStr ''good''), (''explanation'', PyStr ''Sound.'')]) \<and>
   (\<exists>d n. evaluate_reasoning_with_model sample_loads sample_lower scripted (\<lambda>v. []) (sample_record 1) [r_good] =
        (Inr (PyDict d), []) \<and>
      map_of d ''score'' = Some (PyInt n) \<and> 0 \<le> n \<and> n \<le> 4 \<and>
      length (filter (\<lambda>p. fst p = ''score'') d) = 1)"
proof -
  have a: "eval_question (\<lambda>v. []) (sample_record 1) = Inr (prompt_text ''Q'' ''A'' ''B'')"
    by (rule eval_question_sample_record)
  have b: "scripted (prompt_text ''Q'' ''A'' ''B'') [r_good] = (Inr r_good, [])"
    by simp
  have l: "sample_loads r_good =
     Inr (PyDict [(''reasoning_quality'', PyStr ''good''), (''explanation'', PyStr ''Sound.'')])"
    by (simp add: sample_defs)
  have k: "distinct (map fst [(''reasoning_quality'', PyStr ''good''), (''explanation'', PyStr ''Sound.'')])"
    by simp
  from l k have c: "\<forall>d. sample_loads r_good = Inr (PyDict d) \<longrightarrow> distinct (map fst d)"
    by simp
  note score_always_present [where loads = sample_loads and ulower = sample_lower and generate_answer = scripted
      and response = r_good, OF a b c]
  with a b l k show ?thesis by (intro conjI)
qed

text \<open>
  C10. When the response decodes to a JSON object whose \<^verbatim>\<open>"reasoning_quality"\<close> is not a
  string, \<^verbatim>\<open>lower\<close> raises inside the \<^verbatim>\<open>try\<close> block, so the decoded object is dropped
  and the verdict is the one of a failed decoding: label \<^verbatim>\<open>"invalid"\<close>, score 0 and the
  raw response in the explanation.
\<close>

theorem non_string_label_invalid:
  assumes "eval_question fmt item = Inr q" and "generate_answer q st = (Inr response, st')"
    and "loads response = Inr (PyDict d)"
    and "map_of d ''reasoning_quality'' = Some v" and "\<forall>l. v \<noteq> PyStr l"
  shows "\<exists>w. evaluate_reasoning_with_model loads ulower generate_answer fmt item st = (Inr w, st') \<and>
      w = PyDict [(''reasoning_quality'', PyStr ''invalid''),
            (''explanation'', PyStr (''Model returned non-JSON output: '' @ response)),
            (''score'', PyInt 0)] \<and>
      is_invalid_verdict response w"
proof -
  let ?w = "PyDict [(''reasoning_quality'', PyStr ''invalid''),
            (''explanation'', PyStr (''Model returned non-JSON output: '' @ response)),
            (''score'', PyInt 0)]"
  from assms(5) have "\<And>l. v \<noteq> PyStr l" by simp
  with assms(3,4) have "try_parse loads ulower response = Inl AttributeError"
    by (rule try_parse_no_string)
  then have "interpret_response loads ulower response = Inr ?w"
    by (rule interpret_response_except)
  with assms(1,2) have "evaluate_reasoning_with_model loads ulower generate_answer fmt item st = (Inr ?w, st')"
    by (simp only: evaluate_reasoning_with_model_response)
  moreover have "is_invalid_verdict response ?w"
    by (rule is_invalid_verdict_synthetic)
  ultimately show ?thesis by (intro exI [of _ ?w] conjI refl)
qed

theorem non_string_label_invalid_witness:
  "eval_question (\<lambda>v. []) (sample_record 1) = Inr (prompt_text ''Q'' ''A'' ''B'') \<and>
   scripted (prompt_text ''Q'' ''A'' ''B'') [r_number] = (Inr r_number, []) \<and>
   sample_loads r_number =
     Inr (PyDict [(''reasoning_quality'', PyInt 4), (''explanation'', PyStr ''Sound.'')]) \<and>
   map_of [(''reasoning_quality'', PyInt 4), (''explanation'', PyStr ''Sound.'')]
      ''reasoning_quality'' = Some (PyInt 4) \<and>
   (\<forall>l. PyInt 4 \<noteq> PyStr l) \<and>
   evaluate_reasoning_with_model sample_loads sample_lower scripted (\<lambda>v. []) (sample_record 1) [r_number] =
     (Inr (PyDict [(''reasoning_quality'', PyStr ''invalid''),
            (''explanation'', PyStr (''Model returned non-JSON output: '' @ r_number)),
            (''score'', PyInt 0)]), [])"
proof -
  have a: "eval_question (\<lambda>v. []) (sample_record 1) = Inr (prompt_text ''Q'' ''A'' ''B'')"
    by (rule eval_question_sample_record)
  have b: "scripted (prompt_text ''Q'' ''A'' ''B'') [r_number] = (Inr r_number, [])"
    by simp
  have c: "sample_loads r_number =
     Inr (PyDict [(''reasoning_quality'', PyInt 4), (''explanation'', PyStr ''Sound.'')])"
    by (simp add: sample_defs)
  have d: "map_of [(''reasoning_quality'', PyInt 4), (''explanation'', PyStr ''Sound.'')]
      ''reasoning_quality'' = Some (PyInt 4)"
    by simp
  have e: "\<forall>l. PyInt 4 \<noteq> PyStr l" by simp
  from non_string_label_invalid [where loads = sample_loads and ulower = sample_lower and generate_answer = scripted
      and response = r_number, OF a b c d e]
  have "evaluate_reasoning_with_model sample_loads sample_lower scripted (\<lambda>v. []) (sample_record 1) [r_number] =
     (Inr (PyDict [(''reasoning_quality'', PyStr ''invalid''),
            (''explanation'', PyStr (''Model returned non-JSON output: '' @ r_number)),
            (''score'', PyInt 0)]), [])"
    by (elim exE conjE) (simp only:)
  with a b c d e show ?thesis by (intro conjI)
qed

section \<open>Properties of the batch driver\<close>

subsection \<open>The relation between a dictionary and its update\<close>

lemma kept_refl: "kept ks d d"
  by (induction d) simp_all

lemma kept_dict_set: "k \<in> set ks \<Longrightarrow> kept ks d (dict_set k v d)"
  by (induction d) (simp_all add: kept_refl)

lemma kept_only_new: "kept ks [] b \<Longrightarrow> kept ks b c \<Longrightarrow> kept ks [] c"
proof (induction ks b c rule: kept.induct)
  case (1 ks d')
  then show ?case by simp
next
  case (2 ks p d)
  then show ?case by simp
next
  case (3 ks p d p' d')
  then show ?case by simp
qed

lemma kept_trans: "kept ks a b \<Longrightarrow> kept ks b c \<Longrightarrow> kept ks a c"
proof (induction ks a b arbitrary: c rule: kept.induct)
  case (1 ks d')
  then show ?case by (rule kept_only_new)
next
  case (2 ks p d)
  then show ?case by simp
next
  case (3 ks p d p' d')
  from "3.prems"(2) obtain q c' where c: "c = q # c'"
    by (cases c) simp_all
  with "3.prems" "3.IH" [of c'] show ?case by auto
qed

subsection \<open>What a loop that ends well has done\<close>

lemma eval_question_dict:
  assumes "eval_question fmt item = Inr q"
  shows "\<exists>f. item = PyDict f"
  using assms by (cases item) (simp_all add: eval_question_def)

lemma interpret_response_score:
  "\<exists>d n. interpret_response loads ulower response = Inr (PyDict d) \<and> map_of d ''score'' = Some (PyInt n)"
proof (cases loads ulower response rule: interpret_response_cases)
  case synthetic
  then show ?thesis by simp
next
  case (decoded d q)
  then show ?thesis by (simp add: map_of_dict_set)
qed

lemma evaluate_success:
  assumes "evaluate_reasoning_with_model loads ulower generate_answer fmt item st = (Inr ev, st')"
  shows "\<exists>f d n. item = PyDict f \<and> ev = PyDict d \<and> map_of d ''score'' = Some (PyInt n)"
proof (cases "eval_question fmt item")
  case (Inl e)
  with assms show ?thesis by (simp add: evaluate_reasoning_with_model_def)
next
  case (Inr q)
  from eval_question_dict [OF this] obtain f where f: "item = PyDict f" by (elim exE)
  obtain r st1 where g: "generate_answer q st = (r, st1)" by (cases "generate_answer q st")
  show ?thesis
  proof (cases r)
    case (Inl e)
    with Inr g assms show ?thesis by (simp add: evaluate_reasoning_with_model_def)
  next
    case r: (Inr response)
    with Inr g assms have "interpret_response loads ulower response = Inr ev"
      by (simp add: evaluate_reasoning_with_model_def)
    moreover from interpret_response_score [where loads = loads and ulower = ulower and response = response]
    obtain d n where "interpret_response loads ulower response = Inr (PyDict d)"
      "map_of d ''score'' = Some (PyInt n)"
      by (elim exE conjE)
    ultimately have "ev = PyDict d" "map_of d ''score'' = Some (PyInt n)" by simp_all
    with f show ?thesis by (intro exI conjI)
  qed
qed

lemma record_gains_set:
  "record_gains (PyDict f) (PyDict (dict_set ''reasoning_evaluation'' ev f))"
  by (simp add: record_gains_def kept_dict_set map_of_dict_set)

lemma has_score_set:
  "map_of d ''score'' = Some (PyInt n) \<Longrightarrow>
   has_score (PyDict (dict_set ''reasoning_evaluation'' (PyDict d) f)) n"
  by (simp add: has_score_def map_of_dict_set)

lemma eval_items_success:
  "eval_items loads ulower generate_answer fmt items st = (Inr (items', scores), st') \<Longrightarrow>
   \<exists>ns. scores = map PyInt ns \<and> list_all2 has_score items' ns \<and>
        list_all2 record_gains items items'"
proof (induction items arbitrary: st st' items' scores)
  case Nil
  then have "scores = map PyInt []" "list_all2 has_score items' []" "list_all2 record_gains [] items'"
    by simp_all
  then show ?case by (intro exI [of _ "[]"] conjI)
next
  case (Cons item items)
  obtain r st1 where e: "evaluate_reasoning_with_model loads ulower generate_answer fmt item st = (r, st1)"
    by (cases "evaluate_reasoning_with_model loads ulower generate_answer fmt item st")
  show ?case
  proof (cases r)
    case (Inl err)
    with e Cons.prems show ?thesis by simp
  next
    case (Inr ev)
    with e have e': "evaluate_reasoning_with_model loads ulower generate_answer fmt item st = (Inr ev, st1)"
      by simp
    from evaluate_success [where generate_answer = generate_answer, OF e']
    obtain f d n where fd: "item = PyDict f" "ev = PyDict d" "map_of d ''score'' = Some (PyInt n)"
      by (elim exE conjE)
    obtain r2 st2 where rest: "eval_items loads ulower generate_answer fmt items st1 = (r2, st2)"
      by (cases "eval_items loads ulower generate_answer fmt items st1")
    show ?thesis
    proof (cases r2)
      case (Inl err)
      with e' fd rest Cons.prems show ?thesis by simp
    next
      case r2: (Inr p)
      obtain its scs where p: "p = (its, scs)" by (cases p)
      with rest r2 have rest': "eval_items loads ulower generate_answer fmt items st1 = (Inr (its, scs), st2)"
        by simp
      with e' fd Cons.prems have out:
        "items' = PyDict (dict_set ''reasoning_evaluation'' (PyDict d) f) # its"
        "scores = PyInt n # scs"
        by simp_all
      from Cons.IH [OF rest'] obtain ns where
        ns: "scs = map PyInt ns" "list_all2 has_score its ns" "list_all2 record_gains items its"
        by (elim exE conjE)
      have a: "scores = map PyInt (n # ns)" using out(2) ns(1) by simp
      have h: "has_score (PyDict (dict_set ''reasoning_evaluation'' (PyDict d) f)) n"
        using fd(3) by (rule has_score_set)
      have b: "list_all2 has_score items' (n # ns)"
        unfolding out(1) using h ns(2) by (rule list_all2_Cons [THEN iffD2, OF conjI])
      have g: "record_gains item (PyDict (dict_set ''reasoning_evaluation'' (PyDict d) f))"
        unfolding fd(1) by (rule record_gains_set)
      have c: "list_all2 record_gains (item # items) items'"
        unfolding out(1) using g ns(3) by (rule list_all2_Cons [THEN iffD2, OF conjI])
      from a b c show ?thesis by (intro exI [of _ "n # ns"] conjI)
    qed
  qed
qed

lemma py_sum_ints: "py_sum (map PyInt ns) = Inr (sum_list ns)"
  by (induction ns) simp_all

lemma average_score_ints:
  "average_score (map PyInt ns) =
     (if ns = [] then Inl ZeroDivisionError
      else Inr (Finite (of_int (sum_list ns) / of_int (int (length ns)))))"
  by (simp add: average_score_def py_sum_ints py_truediv_def)

subsection \<open>Counting the calls of the grader\<close>

lemma first_ten_length: "first_ten results = Inr items \<Longrightarrow> length items \<le> 10"
  by (cases results) auto

lemma evaluate_counting:
  assumes "evaluate_reasoning_with_model loads ulower (counting generate_answer) fmt item (n, st) = (r, (m, st'))"
  shows "evaluate_reasoning_with_model loads ulower generate_answer fmt item st = (r, st') \<and> n \<le> m \<and> m \<le> Suc n"
proof (cases "eval_question fmt item")
  case (Inl e)
  with assms show ?thesis by (simp add: evaluate_reasoning_with_model_def)
next
  case (Inr q)
  obtain r0 st0 where g: "generate_answer q st = (r0, st0)" by (cases "generate_answer q st")
  then have c: "counting generate_answer q (n, st) = (r0, (Suc n, st0))"
    by (simp add: counting_def)
  show ?thesis
  proof (cases r0)
    case (Inl e)
    with Inr g c assms show ?thesis by (simp add: evaluate_reasoning_with_model_def)
  next
    case r0: (Inr response)
    with Inr g c assms show ?thesis by (simp add: evaluate_reasoning_with_model_def)
  qed
qed

lemma eval_items_counting:
  "eval_items loads ulower (counting generate_answer) fmt items (n, st) = (r, (m, st')) \<Longrightarrow>
   eval_items loads ulower generate_answer fmt items st = (r, st') \<and> n \<le> m \<and> m \<le> n + length items"
proof (induction items arbitrary: n st r m st')
  case Nil
  then show ?case by simp
next
  case (Cons item items)
  obtain r1 m1 st1 where
    e: "evaluate_reasoning_with_model loads ulower (counting generate_answer) fmt item (n, st) = (r1, (m1, st1))"
    by (cases "evaluate_reasoning_with_model loads ulower (counting generate_answer) fmt item (n, st)") auto
  from evaluate_counting [OF e] have
    e': "evaluate_reasoning_with_model loads ulower generate_answer fmt item st = (r1, st1)"
    and m1: "n \<le> m1" "m1 \<le> Suc n"
    by simp_all
  show ?case
  proof (cases r1)
    case (Inl err)
    with e e' m1 Cons.prems show ?thesis by simp
  next
    case (Inr ev)
    with e' have e'': "evaluate_reasoning_with_model loads ulower generate_answer fmt item st = (Inr ev, st1)"
      by simp
    from evaluate_success [where generate_answer = generate_answer, OF e'']
    obtain f d k where fd: "item = PyDict f" "ev = PyDict d" "map_of d ''score'' = Some (PyInt k)"
      by (elim exE conjE)
    obtain r2 m2 st2 where
      rest: "eval_items loads ulower (counting generate_answer) fmt items (m1, st1) = (r2, (m2, st2))"
      by (cases "eval_items loads ulower (counting generate_answer) fmt items (m1, st1)") auto
    from Cons.IH [OF rest] have
      rest': "eval_items loads ulower generate_answer fmt items st1 = (r2, st2)"
      and m2: "m1 \<le> m2" "m2 \<le> m1 + length items"
      by simp_all
    show ?thesis
    proof (cases r2)
      case (Inl err)
      with Cons.prems e Inr fd rest have "r = Inl err" "m = m2" "st' = st2" by simp_all
      moreover from e'' fd rest' Inl
      have "eval_items loads ulower generate_answer fmt (item # items) st = (Inl err, st2)" by simp
      ultimately show ?thesis using m1 m2 by simp
    next
      case r2: (Inr p)
      obtain its scs where p: "p = (its, scs)" by (cases p)
      with Cons.prems e Inr fd rest r2
      have "r = Inr (PyDict (dict_set ''reasoning_evaluation'' ev f) # its, PyInt k # scs)"
        "m = m2" "st' = st2" by simp_all
      moreover from e'' fd rest' r2 p
      have "eval_items loads ulower generate_answer fmt (item # items) st =
          (Inr (PyDict (dict_set ''reasoning_evaluation'' ev f) # its, PyInt k # scs), st2)" by simp
      ultimately show ?thesis using m1 m2 by simp
    qed
  qed
qed

lemma process_json_file_loop:
  assumes "py_getitem data ''results'' = Inr results" and "first_ten results = Inr items"
    and "eval_items loads ulower generate_answer fmt items st = (r, st1)"
  shows "process_json_file loads ulower generate_answer fmt data st =
     (case r of
        Inl e \<Rightarrow> Inl e
      | Inr (items', reasoning_scores) \<Rightarrow>
          (case average_score reasoning_scores of
             Inl e \<Rightarrow> Inl e
           | Inr avg_score \<Rightarrow>
               (case py_setitem data ''results'' (write_back results items') of
                  Inl e \<Rightarrow> Inl e
                | Inr data' \<Rightarrow>
                    py_setitem data' ''reasoning_average_score'' (PyFloat avg_score))), st1)"
  using assms by (simp add: process_json_file_def split: sum.splits prod.splits)

lemma process_json_file_counting:
  assumes "process_json_file loads ulower (counting generate_answer) fmt data (0, st) = (r, (n, st'))"
  shows "process_json_file loads ulower generate_answer fmt data st = (r, st') \<and> n \<le> 10"
proof (cases "py_getitem data ''results''")
  case (Inl e)
  then have "process_json_file loads ulower (counting generate_answer) fmt data (0, st) = (Inl e, (0, st))"
    and b: "process_json_file loads ulower generate_answer fmt data st = (Inl e, st)"
    by (simp_all add: process_json_file_def)
  with assms have "r = Inl e" "n = 0" "st' = st" by simp_all
  with b show ?thesis by simp
next
  case (Inr results)
  show ?thesis
  proof (cases "first_ten results")
    case (Inl e)
    with Inr have "process_json_file loads ulower (counting generate_answer) fmt data (0, st) = (Inl e, (0, st))"
      and b: "process_json_file loads ulower generate_answer fmt data st = (Inl e, st)"
      by (simp_all add: process_json_file_def)
    with assms have "r = Inl e" "n = 0" "st' = st" by simp_all
    with b show ?thesis by simp
  next
    case items: (Inr items)
    obtain r1 m st1 where
      c: "eval_items loads ulower (counting generate_answer) fmt items (0, st) = (r1, (m, st1))"
      by (cases "eval_items loads ulower (counting generate_answer) fmt items (0, st)") auto
    from eval_items_counting [OF c] have
      u: "eval_items loads ulower generate_answer fmt items st = (r1, st1)" and m: "m \<le> length items"
      by simp_all
    from process_json_file_loop [OF Inr items c] assms have "n = m" "st' = st1" by simp_all
    moreover from process_json_file_loop [OF Inr items c] process_json_file_loop [OF Inr items u] assms
    have "process_json_file loads ulower generate_answer fmt data st = (r, st1)" by simp
    moreover from items have "length items \<le> 10" by (rule first_ten_length)
    ultimately show ?thesis using m by simp
  qed
qed

subsection \<open>Runs that end with an output document\<close>

lemma record_gains_dict: "record_gains item item' \<Longrightarrow> \<exists>f. item = PyDict f"
  by (cases item) (simp_all add: record_gains_def)

lemma process_json_file_success:
  assumes "process_json_file loads ulower generate_answer fmt data st = (Inr out, st')"
  shows "\<exists>d rs items' ns.
      data = PyDict d \<and> map_of d ''results'' = Some (PyList rs) \<and>
      eval_items loads ulower generate_answer fmt (take 10 rs) st = (Inr (items', map PyInt ns), st') \<and>
      ns \<noteq> [] \<and> list_all2 has_score items' ns \<and> list_all2 record_gains (take 10 rs) items' \<and>
      out = PyDict (dict_set ''reasoning_average_score''
              (PyFloat (Finite (of_int (sum_list ns) / of_int (int (length ns)))))
              (dict_set ''results'' (PyList (items' @ drop 10 rs)) d))"
proof (cases "py_getitem data ''results''")
  case (Inl e)
  with assms show ?thesis by (simp add: process_json_file_def)
next
  case (Inr results)
  then obtain d where d: "data = PyDict d" by (cases data) simp_all
  with Inr have res: "map_of d ''results'' = Some results"
    by (simp split: option.splits)
  show ?thesis
  proof (cases "first_ten results")
    case (Inl e)
    with Inr assms show ?thesis by (simp add: process_json_file_def)
  next
    case items: (Inr items)
    obtain r st1 where e: "eval_items loads ulower generate_answer fmt items st = (r, st1)"
      by (cases "eval_items loads ulower generate_answer fmt items st")
    note run = process_json_file_loop [OF Inr items e]
    show ?thesis
    proof (cases r)
      case (Inl err)
      with run assms show ?thesis by simp
    next
      case r: (Inr p)
      obtain items' scores where p: "p = (items', scores)" by (cases p)
      with e r have e': "eval_items loads ulower generate_answer fmt items st = (Inr (items', scores), st1)"
        by simp
      from eval_items_success [OF e'] obtain ns where
        ns: "scores = map PyInt ns" "list_all2 has_score items' ns" "list_all2 record_gains items items'"
        by (elim exE conjE)
      from run r p ns(1) assms have ne: "ns \<noteq> []"
        by (auto simp: average_score_ints)
      have list: "\<exists>rs. results = PyList rs"
      proof (cases results)
        case (PyStr s)
        with items have i: "items = map (\<lambda>c. PyStr [c]) (take 10 s)" by simp
        from ns(2,3) ne have "items \<noteq> []" by (auto simp: list_all2_Nil)
        then obtain x xs where x: "items = x # xs" by (cases items) simp_all
        with i obtain c where "x = PyStr [c]" by (cases "take 10 s") auto
        moreover from ns(3) x obtain y where "record_gains x y"
          by (auto simp: list_all2_Cons1)
        ultimately show ?thesis using record_gains_dict by fastforce
      qed (use items in simp_all)
      then obtain rs where rs: "results = PyList rs" by (elim exE)
      with items have it: "items = take 10 rs" by simp
      from run r p ns(1) ne d rs assms have
        "out = PyDict (dict_set ''reasoning_average_score''
              (PyFloat (Finite (of_int (sum_list ns) / of_int (int (length ns)))))
              (dict_set ''results'' (PyList (items' @ drop 10 rs)) d))" and "st' = st1"
        by (simp_all add: average_score_ints)
      note o = this
      from res rs have r1: "map_of d ''results'' = Some (PyList rs)" by simp
      from e' ns(1) it o(2) have r2:
        "eval_items loads ulower generate_answer fmt (take 10 rs) st = (Inr (items', map PyInt ns), st')"
        by simp
      from ns(3) it have r3: "list_all2 record_gains (take 10 rs) items'" by simp
      from d r1 r2 ne ns(2) r3 o(1) show ?thesis
        by (intro exI [of _ d] exI [of _ rs] exI [of _ items'] exI [of _ ns] conjI)
    qed
  qed
qed

lemma take_ten_written:
  assumes "length items' = length (take 10 rs)"
  shows "take 10 (items' @ drop 10 rs) = items'" and "drop 10 (items' @ drop 10 rs) = drop 10 rs"
    and "length (items' @ drop 10 rs) = length rs"
  using assms by (cases "10 \<le> length rs"; simp)+

lemma batch_frame_written:
  assumes "map_of d ''results'' = Some (PyList rs)"
    and "list_all2 record_gains (take 10 rs) items'"
  shows "batch_frame (PyDict d)
     (PyDict (dict_set ''reasoning_average_score'' (PyFloat a)
        (dict_set ''results'' (PyList (items' @ drop 10 rs)) d)))"
proof -
  let ?d1 = "dict_set ''results'' (PyList (items' @ drop 10 rs)) d"
  let ?d2 = "dict_set ''reasoning_average_score'' (PyFloat a) ?d1"
  let ?ks = "[''results'', ''reasoning_average_score'']"
  have "kept ?ks d ?d1" by (rule kept_dict_set) simp
  moreover have "kept ?ks ?d1 ?d2" by (rule kept_dict_set) simp
  ultimately have k: "kept ?ks d ?d2" by (rule kept_trans)
  have a: "map_of ?d2 ''reasoning_average_score'' = Some (PyFloat a)"
    by (simp add: map_of_dict_set)
  have r: "map_of ?d2 ''results'' = Some (PyList (items' @ drop 10 rs))"
    by (simp add: map_of_dict_set)
  from assms(2) have len: "length items' = length (take 10 rs)"
    by (rule list_all2_lengthD [symmetric])
  note w = take_ten_written [OF len]
  from assms(2) w(1) have g: "list_all2 record_gains (take 10 rs) (take 10 (items' @ drop 10 rs))"
    by simp
  from k a r assms(1) w(2,3) g show ?thesis
    by (simp add: batch_frame_def)
qed

text \<open>
  C3. In every run of \<^verbatim>\<open>process_json_file\<close> the grader is called at most ten times, and
  the counting changes nothing in the run. When the run ends with an output document,
  this document is the input document with these changes only: each of the first ten
  records has a \<^verbatim>\<open>"reasoning_evaluation"\<close> and is otherwise as it was, the records after
  the tenth are as they were, and the top level has a \<^verbatim>\<open>"reasoning_average_score"\<close>; all
  other fields keep their place and their value.
\<close>

theorem batch_changes_first_ten_only:
  assumes "process_json_file loads ulower (counting generate_answer) fmt data (0, st) = (r, (n, st'))"
  shows "n \<le> 10 \<and> process_json_file loads ulower generate_answer fmt data st = (r, st') \<and>
     (\<forall>out. r = Inr out \<longrightarrow> batch_frame data out)"
proof -
  from process_json_file_counting [OF assms] have
    run: "process_json_file loads ulower generate_answer fmt data st = (r, st')" and n: "n \<le> 10"
    by simp_all
  have "batch_frame data out" if "r = Inr out" for out
  proof -
    from run that have "process_json_file loads ulower generate_answer fmt data st = (Inr out, st')"
      by simp
    from process_json_file_success [OF this] obtain d rs items' ns where
      "data = PyDict d" "map_of d ''results'' = Some (PyList rs)"
      "list_all2 record_gains (take 10 rs) items'"
      "out = PyDict (dict_set ''reasoning_average_score''
              (PyFloat (Finite (of_int (sum_list ns) / of_int (int (length ns)))))
              (dict_set ''results'' (PyList (items' @ drop 10 rs)) d))"
      by (elim exE conjE)
    then show ?thesis by (simp only: batch_frame_written)
  qed
  with run n show ?thesis by simp
qed


text \<open>
  C8. When the list under \<^verbatim>\<open>"results"\<close> is empty, the run ends with ZeroDivisionError
  before anything is written, and the grader has not been called.
\<close>

theorem empty_batch_zero_division:
  assumes "py_getitem data ''results'' = Inr (PyList [])"
  shows "process_json_file loads ulower generate_answer fmt data st = (Inl ZeroDivisionError, st)"
  using assms by (simp add: process_json_file_def average_score_def py_truediv_def)

theorem empty_batch_zero_division_witness:
  "py_getitem (sample_document []) ''results'' = Inr (PyList []) \<and>
   process_json_file sample_loads sample_lower scripted (\<lambda>v. []) (sample_document []) [r_good] =
     (Inl ZeroDivisionError, [r_good])"
proof -
  have a: "py_getitem (sample_document []) ''results'' = Inr (PyList [])"
    by (simp add: sample_document_def)
  from empty_batch_zero_division [where generate_answer = scripted, OF a] a
  show ?thesis by (intro conjI)
qed

subsection \<open>Runs on the sample documents\<close>




lemma reasoning_score_keys:
  "reasoning_score ''excellent'' = 4" "reasoning_score ''good'' = 3" "reasoning_score ''weak'' = 2"
  "reasoning_score ''incorrect'' = 1"
  by (simp_all add: reasoning_score_def dict_get_def REASONING_SCORE_MAP_def)

lemma interpret_sample_labelled:
  assumes "sample_loads r = Inr (labelled (PyStr l))"
  shows "interpret_response sample_loads sample_lower r = Inr (scored (PyStr l) (reasoning_score (str_lower sample_lower l)))"
proof -
  from assms have "sample_loads r =
      Inr (PyDict [(''reasoning_quality'', PyStr l), (''explanation'', PyStr ''Sound.'')])"
    by (simp add: labelled_def)
  moreover have "map_of [(''reasoning_quality'', PyStr l), (''explanation'', PyStr ''Sound.'')]
      ''reasoning_quality'' = Some (PyStr l)"
    by simp
  ultimately have "interpret_response sample_loads sample_lower r =
      Inr (PyDict (dict_set ''score'' (PyInt (reasoning_score (str_lower sample_lower l)))
        [(''reasoning_quality'', PyStr l), (''explanation'', PyStr ''Sound.'')]))"
    by (rule interpret_response_string_label)
  then show ?thesis by (simp add: scored_def)
qed


lemma interpret_sample_plain:
  "interpret_response sample_loads sample_lower r_plain =
     Inr (PyDict [(''reasoning_quality'', PyStr ''invalid''),
            (''explanation'', PyStr (''Model returned non-JSON output: '' @ r_plain)),
            (''score'', PyInt 0)])"
proof -
  have "sample_loads r_plain = Inl JSONDecodeError" by (simp add: sample_defs)
  then have "try_parse sample_loads sample_lower r_plain = Inl JSONDecodeError"
    by (simp add: try_parse_def)
  then show ?thesis by (rule interpret_response_except)
qed

lemma evaluate_sample_record:
  "evaluate_reasoning_with_model sample_loads sample_lower scripted fmt (sample_record k) (r # rs) =
     (interpret_response sample_loads sample_lower r, rs)"
  by (simp add: evaluate_reasoning_with_model_def eval_question_sample_record)

lemma evaluate_sample_record_counting:
  "evaluate_reasoning_with_model sample_loads sample_lower (counting scripted) fmt (sample_record k) (n, r # rs) =
     (interpret_response sample_loads sample_lower r, (Suc n, rs))"
  by (simp add: evaluate_reasoning_with_model_def eval_question_sample_record counting_def)

lemma evaluated_sample_record:
  "py_setitem (sample_record k) ''reasoning_evaluation'' v = Inr (evaluated_record k v)"
  by (simp add: sample_record_def evaluated_record_def)

text \<open>
  A label beyond ASCII: WEA followed by the Kelvin sign is \<^verbatim>\<open>"weak"\<close> in lower case, a
  key of the table, and scores 2.
\<close>

lemma str_lower_kelvin_weak: "str_lower sample_lower kelvin_weak = ''weak''"
  by (simp add: str_lower_def is_ascii_def sample_lower_def kelvin_weak_def)

lemma kelvin_label_scores_weak:
  "evaluate_reasoning_with_model sample_loads sample_lower scripted (\<lambda>v. []) (sample_record 1)
       [r_kelvin] = (Inr (scored (PyStr kelvin_weak) 2), [])"
proof -
  have "sample_loads r_kelvin = Inr (labelled (PyStr kelvin_weak))"
    by (simp add: sample_defs)
  from interpret_sample_labelled [OF this]
  have "interpret_response sample_loads sample_lower r_kelvin = Inr (scored (PyStr kelvin_weak) 2)"
    by (simp only: str_lower_kelvin_weak reasoning_score_keys)
  then show ?thesis by (simp only: evaluate_sample_record)
qed




lemma eval_items_sample_plain:
  "eval_items sample_loads sample_lower (counting scripted) fmt (map sample_record ks)
       (n, replicate (length ks) r_plain @ rest) =
     (Inr (map (\<lambda>k. evaluated_record k
              (PyDict [(''reasoning_quality'', PyStr ''invalid''),
                (''explanation'', PyStr (''Model returned non-JSON output: '' @ r_plain)),
                (''score'', PyInt 0)])) ks,
           map (\<lambda>k. PyInt 0) ks), (n + length ks, rest))"
  by (induction ks arbitrary: n)
    (simp_all add: evaluate_sample_record_counting interpret_sample_plain evaluated_sample_record)

theorem batch_changes_first_ten_only_witness:
  "process_json_file sample_loads sample_lower (counting scripted) (\<lambda>v. [])
       (sample_document [1, 2, 3, 4, 5, 6, 7, 8, 9, 10, 11, 12])
       (0, replicate 10 r_plain @ [r_good, r_good]) =
     (Inr (PyDict [(''model'', PyStr ''llama70''),
        (''results'', PyList
           (map (\<lambda>k. evaluated_record k
              (PyDict [(''reasoning_quality'', PyStr ''invalid''),
                (''explanation'', PyStr (''Model returned non-JSON output: '' @ r_plain)),
                (''score'', PyInt 0)])) [1, 2, 3, 4, 5, 6, 7, 8, 9, 10] @
            [sample_record 11, sample_record 12])),
        (''n'', PyInt 12),
        (''reasoning_average_score'', PyFloat (Finite 0))]), (10, [r_good, r_good])) \<and>
   (10::nat) \<le> 10 \<and>
   batch_frame (sample_document [1, 2, 3, 4, 5, 6, 7, 8, 9, 10, 11, 12])
     (PyDict [(''model'', PyStr ''llama70''),
        (''results'', PyList
           (map (\<lambda>k. evaluated_record k
              (PyDict [(''reasoning_quality'', PyStr ''invalid''),
                (''explanation'', PyStr (''Model returned non-JSON output: '' @ r_plain)),
                (''score'', PyInt 0)])) [1, 2, 3, 4, 5, 6, 7, 8, 9, 10] @
            [sample_record 11, sample_record 12])),
        (''n'', PyInt 12),
        (''reasoning_average_score'', PyFloat (Finite 0))])"
proof -
  let ?doc = "sample_document [1, 2, 3, 4, 5, 6, 7, 8, 9, 10, 11, 12]"
  let ?out = "PyDict [(''model'', PyStr ''llama70''),
        (''results'', PyList
           (map (\<lambda>k. evaluated_record k
              (PyDict [(''reasoning_quality'', PyStr ''invalid''),
                (''explanation'', PyStr (''Model returned non-JSON output: '' @ r_plain)),
                (''score'', PyInt 0)])) [1, 2, 3, 4, 5, 6, 7, 8, 9, 10] @
            [sample_record 11, sample_record 12])),
        (''n'', PyInt 12),
        (''reasoning_average_score'', PyFloat (Finite 0))]"
  have a: "py_getitem ?doc ''results'' =
      Inr (PyList (map sample_record [1, 2, 3, 4, 5, 6, 7, 8, 9, 10, 11, 12]))"
    by (simp add: sample_document_def)
  have b: "first_ten (PyList (map sample_record [1, 2, 3, 4, 5, 6, 7, 8, 9, 10, 11, 12])) =
      Inr (map sample_record [1, 2, 3, 4, 5, 6, 7, 8, 9, 10])"
    by simp
  have len: "length [1, 2, 3, 4, 5, 6, 7, 8, 9, 10 :: int] = 10" by simp
  have c: "eval_items sample_loads sample_lower (counting scripted) (\<lambda>v. [])
       (map sample_record [1, 2, 3, 4, 5, 6, 7, 8, 9, 10])
       (0, replicate 10 r_plain @ [r_good, r_good]) =
     (Inr (map (\<lambda>k. evaluated_record k
              (PyDict [(''reasoning_quality'', PyStr ''invalid''),
                (''explanation'', PyStr (''Model returned non-JSON output: '' @ r_plain)),
                (''score'', PyInt 0)])) [1, 2, 3, 4, 5, 6, 7, 8, 9, 10],
           map (\<lambda>k::int. PyInt 0) [1, 2, 3, 4, 5, 6, 7, 8, 9, 10]), (10, [r_good, r_good]))"
    using eval_items_sample_plain [of "\<lambda>v. []" "[1, 2, 3, 4, 5, 6, 7, 8, 9, 10]" 0 "[r_good, r_good]"]
    by (simp only: len add_0)
  have run: "process_json_file sample_loads sample_lower (counting scripted) (\<lambda>v. []) ?doc
       (0, replicate 10 r_plain @ [r_good, r_good]) = (Inr ?out, (10, [r_good, r_good]))"
    unfolding process_json_file_loop [OF a b c]
    by (simp add: average_score_def py_truediv_def sample_document_def)
  from batch_changes_first_ten_only [where generate_answer = scripted, OF run]
  have "(10::nat) \<le> 10" and "batch_frame ?doc ?out" by simp_all
  with run show ?thesis by (intro conjI)
qed

end
